theory Spec2Isabelle
  imports Complex_Main
begin

section \<open>AbstractDeployment: the lifecycle contract and its finalizer\<close>

text \<open>
  A shallow embedding of \<^verbatim>\<open>src/swerex/deployment/abstract.py\<close>. The finalizer
  \<^verbatim>\<open>AbstractDeployment.__del__\<close> consists of calls into its surroundings: the import
  system, \<^verbatim>\<open>sys.meta_path\<close>, the logger of the object, \<^verbatim>\<open>print\<close>, asyncio, and the
  abstract coroutine \<^verbatim>\<open>self.stop()\<close>. Each of these calls is a parameter of the model:
  whether it returns or raises, and what, is read from the object or from the ambient
  environment, whether or not the call stands inside a \<^verbatim>\<open>try\<close>. Every effect the
  finalizer performs is appended to a trace. A run ends by returning, by an exception
  that leaves the function, or not at all; its result is that ending together with the
  trace. Exceptions that the interpreter delivers between two calls are not modelled; one
  delivered while the loop is driven is an outcome of the driven coroutine.
\<close>

subsection \<open>Exceptions\<close>

text \<open>
  The classes the handlers of the source tell apart, and some that reach them.
  \<^verbatim>\<open>except Exception\<close> catches every instance of \<^verbatim>\<open>Exception\<close>;
  \<^verbatim>\<open>KeyboardInterrupt\<close>, \<^verbatim>\<open>SystemExit\<close> and \<^verbatim>\<open>asyncio.CancelledError\<close> derive from
  \<^verbatim>\<open>BaseException\<close> only (the module needs Python 3.10 for the annotation
  \<^verbatim>\<open>float | None\<close>, and \<^verbatim>\<open>CancelledError\<close> left \<^verbatim>\<open>Exception\<close> in 3.8).
  \<open>TimeoutError\<close> is \<^verbatim>\<open>asyncio.TimeoutError\<close>; \<open>OtherException\<close> stands for any other
  subclass of \<^verbatim>\<open>Exception\<close>.
\<close>

datatype exn_class =
    RuntimeError | TimeoutError | AttributeError | ImportError | OSError | ValueError
  | OtherException
  | CancelledError | KeyboardInterrupt | SystemExit

text \<open>
  An exception object, as far as the source looks at it: its class, what \<^verbatim>\<open>str\<close> of it
  gives (the f-strings format it), and its truth value (the callback tests it). Both may
  raise in a class that overrides \<^verbatim>\<open>__str__\<close>, \<^verbatim>\<open>__bool__\<close> or \<^verbatim>\<open>__len__\<close>;
  \<open>Inl c\<close> says that an exception of class \<open>c\<close> is raised.
\<close>

datatype exn = Exn (exn_class: exn_class) (exn_str: "exn_class + string")
  (exn_bool: "exn_class + bool")

text \<open>An exception of the given class with nothing unusual about it.\<close>

definition plain :: "exn_class \<Rightarrow> exn" where
  "plain c = Exn c (Inr []) (Inr True)"

fun is_Exception_class :: "exn_class \<Rightarrow> bool" where
  "is_Exception_class CancelledError = False"
| "is_Exception_class KeyboardInterrupt = False"
| "is_Exception_class SystemExit = False"
| "is_Exception_class c = True"

definition isinstance_Exception :: "exn \<Rightarrow> bool" where
  "isinstance_Exception e = is_Exception_class (exn_class e)"

definition isinstance_TimeoutError :: "exn \<Rightarrow> bool" where
  "isinstance_TimeoutError e = (exn_class e = TimeoutError)"

definition isinstance_RuntimeError :: "exn \<Rightarrow> bool" where
  "isinstance_RuntimeError e = (exn_class e = RuntimeError)"

text \<open>The outcome of a call made for its effect: \<open>None\<close> when it returns, \<open>Some e\<close> when
  it raises \<open>e\<close>.\<close>

type_synonym outcome = "exn option"

text \<open>How a run ends. \<open>Blocked\<close>: it never returns.\<close>

datatype completion = Returned | Raised exn | Blocked

definition of_outcome :: "outcome \<Rightarrow> completion" where
  "of_outcome r = (case r of None \<Rightarrow> Returned | Some e \<Rightarrow> Raised e)"

subsection \<open>The deployment object\<close>

text \<open>
  Modelled from the spec: the lifecycle state of a deployment (section 3 of the
  specification). \<^verbatim>\<open>AbstractDeployment\<close> declares no state attribute; the concrete
  deployments that keep one are not part of the source at hand.
\<close>

datatype dstate = NotStarted | Starting | Running | Stopping | Stopped | Failed

text \<open>
  Modelled from the spec: the runtime a deployment owns while it runs, reduced to what a
  liveness query observes (whether it is alive, and how long the answer takes). The class
  \<^verbatim>\<open>AbstractRuntime\<close> is imported by the source, not defined in it.
\<close>

record AbstractRuntime =
  alive :: bool
  response_time :: real

datatype level = DEBUG | WARNING | ERROR

text \<open>
  The abstract coroutine \<^verbatim>\<open>self.stop()\<close>, as the loop that drives it sees it. Left
  alone it finishes after some time, returning or raising (implementations are free to
  raise anything), or it never finishes. When it is cancelled before that, it raises
  \<^verbatim>\<open>CancelledError\<close> as a coroutine should, or it swallows the cancellation and
  returns, or raises something of its own, or it goes on forever.
\<close>

datatype on_cancel = RaisesCancelled | ReturnsLate | RaisesLate exn | NeverFinishes

datatype coroutine = Finishes real outcome on_cancel | Hangs on_cancel

text \<open>
  \<open>logger self lvl\<close> is the outcome of \<^verbatim>\<open>self.logger.<lvl>(...)\<close>, the lookup of
  \<^verbatim>\<open>self.logger\<close> included: the class only annotates the attribute, so it may be
  missing (\<^verbatim>\<open>AttributeError\<close>). When the call returns, the record has been emitted.
\<close>

record deployment =
  state :: dstate
  runtime_handle :: "AbstractRuntime option"
  logger :: "level \<Rightarrow> outcome"
  stop_run :: coroutine

subsection \<open>The ambient environment\<close>

text \<open>
  The event loop as the finalizer sees it: the result of \<^verbatim>\<open>loop.is_running()\<close>, the
  outcomes of \<^verbatim>\<open>loop.create_task(self.stop())\<close> and of
  \<^verbatim>\<open>task.add_done_callback(...)\<close>, and what \<^verbatim>\<open>loop.run_until_complete\<close> raises by
  itself before it drives anything (\<^verbatim>\<open>RuntimeError\<close> on a closed loop).
\<close>

record loop =
  is_running :: "exn + bool"
  create_task :: outcome
  add_done_callback :: outcome
  check_closed :: outcome

text \<open>
  Each \<^verbatim>\<open>import sys\<close> and each read of \<^verbatim>\<open>sys.meta_path is None\<close> is executed afresh,
  and arbitrary code runs between them, so each has a field of its own: at entry, inside
  an \<^verbatim>\<open>except\<close> handler, and when the done-callback runs. While the interpreter tears
  its modules down, \<^verbatim>\<open>import sys\<close> itself raises \<^verbatim>\<open>ImportError\<close>. (\<^verbatim>\<open>sys is None\<close>,
  the second disjunct of the entry check, is false once the import has bound the module.)
  \<open>print_out env m\<close> is the outcome of \<^verbatim>\<open>print(m)\<close>, which raises on a closed
  \<^verbatim>\<open>sys.stdout\<close>; \<open>get_event_loop\<close> that of \<^verbatim>\<open>asyncio.get_event_loop()\<close>, which
  documents \<^verbatim>\<open>RuntimeError\<close> for a missing loop and may raise otherwise.
\<close>

record env =
  import_sys_entry :: outcome
  meta_path_none_entry :: bool
  import_sys_handler :: outcome
  meta_path_none_handler :: bool
  import_sys_callback :: outcome
  meta_path_none_callback :: bool
  print_out :: "string \<Rightarrow> outcome"
  get_event_loop :: "exn + loop"

subsection \<open>Effects\<close>

text \<open>
  \<open>Log\<close> and \<open>Print\<close>: the call returned, the message is out. \<open>GetEventLoop\<close>:
  \<^verbatim>\<open>asyncio.get_event_loop()\<close> was called. \<open>StopCalled\<close>: \<^verbatim>\<open>self.stop()\<close> was called
  (the method is declared \<^verbatim>\<open>async def\<close>: the call gives a coroutine and runs nothing). \<open>CreateTask\<close>: \<^verbatim>\<open>create_task\<close> returned, the task is
  scheduled. \<open>AddDoneCallback\<close>: the callback is attached. \<open>RunUntilComplete t\<close>: the
  loop was driven on \<^verbatim>\<open>asyncio.wait_for(coro, timeout=t)\<close>.
\<close>

datatype event =
    Log level string
  | Print string
  | GetEventLoop
  | StopCalled
  | CreateTask
  | AddDoneCallback
  | RunUntilComplete real

type_synonym result = "completion \<times> event list"

text \<open>The effects \<open>evs\<close>, then the run \<open>r\<close>.\<close>

definition after :: "event list \<Rightarrow> result \<Rightarrow> result" where
  "after evs r = (fst r, evs @ snd r)"

text \<open>The run \<open>r\<close> and, if it returns, the run \<open>k\<close>.\<close>

definition and_then :: "result \<Rightarrow> result \<Rightarrow> result" where
  "and_then r k = (if fst r = Returned then after (snd r) k else r)"

subsection \<open>The finalizer\<close>

definition msg :: string where
  "msg = ''Ensuring deployment is stopped because object is deleted''"

definition no_loop_msg :: string where
  "no_loop_msg = ''No event loop available in __del__, skipping cleanup''"

definition timeout_msg :: string where
  "timeout_msg = ''Timeout during __del__ cleanup (30s), forcing exit''"

definition cleanup_error_prefix :: string where
  "cleanup_error_prefix = ''Error during __del__ cleanup: ''"

definition create_task_error_prefix :: string where
  "create_task_error_prefix = ''Failed to create cleanup task in __del__: ''"

definition task_error_prefix :: string where
  "task_error_prefix = ''Error in __del__ cleanup task: ''"

text \<open>
  The f-string \<^verbatim>\<open>f"<prefix>{e}"\<close>: it formats \<open>e\<close> with \<^verbatim>\<open>str\<close>, and raises what that
  raises.
\<close>

definition fstring :: "string \<Rightarrow> exn \<Rightarrow> exn + string" where
  "fstring prefix e = (case exn_str e of Inl c \<Rightarrow> Inl (plain c) | Inr s \<Rightarrow> Inr (prefix @ s))"

text \<open>
  \<^verbatim>\<open>try: self.logger.<lvl>(m)\<close> / \<^verbatim>\<open>except Exception: print(m)\<close>, the pattern around
  every message of the finalizer; \<open>fm\<close> is the evaluation of the message. An f-string
  that raises an \<^verbatim>\<open>Exception\<close> inside the \<^verbatim>\<open>try\<close> raises it again when the handler
  evaluates it for \<^verbatim>\<open>print\<close>. Nothing encloses the \<^verbatim>\<open>print\<close>.
\<close>

definition log_or_print :: "deployment \<Rightarrow> env \<Rightarrow> level \<Rightarrow> exn + string \<Rightarrow> result" where
  "log_or_print self env lvl fm =
     (case fm of
        Inl x \<Rightarrow> (Raised x, [])
      | Inr m \<Rightarrow>
          (case logger self lvl of
             None \<Rightarrow> (Returned, [Log lvl m])
           | Some e \<Rightarrow>
               (if isinstance_Exception e then
                  (case print_out env m of
                     None \<Rightarrow> (Returned, [Print m])
                   | Some e' \<Rightarrow> (Raised e', []))
                else (Raised e, []))))"

text \<open>
  \<^verbatim>\<open>asyncio.wait_for(coro, timeout)\<close>: the outcome of the coroutine when it finishes
  before the timeout. Otherwise the coroutine is cancelled and waited for:
  \<^verbatim>\<open>TimeoutError\<close> if it ends in \<^verbatim>\<open>CancelledError\<close>, its own result or exception if
  it ends otherwise, and no return while it does not end. \<^verbatim>\<open>str(TimeoutError())\<close> is
  empty.
\<close>

fun cancelled :: "on_cancel \<Rightarrow> completion" where
  "cancelled RaisesCancelled = Raised (plain TimeoutError)"
| "cancelled ReturnsLate = Returned"
| "cancelled (RaisesLate e) =
     (if exn_class e = CancelledError then Raised (plain TimeoutError) else Raised e)"
| "cancelled NeverFinishes = Blocked"

fun wait_for :: "coroutine \<Rightarrow> real \<Rightarrow> completion" where
  "wait_for (Finishes d r c) timeout = (if d < timeout then of_outcome r else cancelled c)"
| "wait_for (Hangs c) timeout = cancelled c"

text \<open>
  The body of the handler \<^verbatim>\<open>except asyncio.TimeoutError\<close>, and the handlers
  \<^verbatim>\<open>except Exception as e\<close> of the two scheduler branches, which differ in the prefix of
  their message: \<^verbatim>\<open>import sys\<close>, the shutdown check, then the message through the
  logger or \<^verbatim>\<open>print\<close>. An exception outside \<^verbatim>\<open>Exception\<close> matches no handler and
  leaves the finalizer.
\<close>

definition on_timeout :: "deployment \<Rightarrow> env \<Rightarrow> result" where
  "on_timeout self env =
     (case import_sys_handler env of
        Some x \<Rightarrow> (Raised x, [])
      | None \<Rightarrow>
          (if meta_path_none_handler env then (Returned, [])
           else log_or_print self env WARNING (Inr timeout_msg)))"

definition handle_error :: "deployment \<Rightarrow> env \<Rightarrow> string \<Rightarrow> exn \<Rightarrow> result" where
  "handle_error self env prefix e =
     (if isinstance_Exception e then
        (case import_sys_handler env of
           Some x \<Rightarrow> (Raised x, [])
         | None \<Rightarrow>
             (if meta_path_none_handler env then (Returned, [])
              else log_or_print self env ERROR (fstring prefix e)))
      else (Raised e, []))"

text \<open>The branch \<^verbatim>\<open>if loop.is_running()\<close>: create the task, attach the callback.\<close>

definition schedule_cleanup :: "deployment \<Rightarrow> env \<Rightarrow> loop \<Rightarrow> result" where
  "schedule_cleanup self env lp =
     (case create_task lp of
        Some e \<Rightarrow> after [StopCalled] (handle_error self env create_task_error_prefix e)
      | None \<Rightarrow>
          (case add_done_callback lp of
             Some e \<Rightarrow>
               after [StopCalled, CreateTask] (handle_error self env create_task_error_prefix e)
           | None \<Rightarrow> (Returned, [StopCalled, CreateTask, AddDoneCallback])))"

text \<open>
  The \<^verbatim>\<open>else\<close> branch:
  \<^verbatim>\<open>loop.run_until_complete(asyncio.wait_for(self.stop(), timeout=30.0))\<close> with its two
  handlers, \<^verbatim>\<open>except asyncio.TimeoutError\<close> first. The arguments are evaluated before
  \<^verbatim>\<open>run_until_complete\<close> looks at the loop.
\<close>

definition on_sync_error :: "deployment \<Rightarrow> env \<Rightarrow> exn \<Rightarrow> result" where
  "on_sync_error self env e =
     (if isinstance_TimeoutError e then on_timeout self env
      else handle_error self env cleanup_error_prefix e)"

definition sync_cleanup :: "deployment \<Rightarrow> env \<Rightarrow> loop \<Rightarrow> result" where
  "sync_cleanup self env lp =
     (case check_closed lp of
        Some e \<Rightarrow> after [StopCalled] (on_sync_error self env e)
      | None \<Rightarrow>
          (case wait_for (stop_run self) 30 of
             Returned \<Rightarrow> (Returned, [StopCalled, RunUntilComplete 30])
           | Raised e \<Rightarrow> after [StopCalled, RunUntilComplete 30] (on_sync_error self env e)
           | Blocked \<Rightarrow> (Blocked, [StopCalled, RunUntilComplete 30])))"

text \<open>
  The probe for the event loop and what follows it, lines 61 to 120:
  \<^verbatim>\<open>except RuntimeError\<close> is the only handler of the probe, and nothing encloses
  \<^verbatim>\<open>loop.is_running()\<close>.
\<close>

definition probe_and_cleanup :: "deployment \<Rightarrow> env \<Rightarrow> result" where
  "probe_and_cleanup self env =
     after [GetEventLoop]
       (case get_event_loop env of
          Inl e \<Rightarrow>
            (if isinstance_RuntimeError e then log_or_print self env WARNING (Inr no_loop_msg)
             else (Raised e, []))
        | Inr lp \<Rightarrow>
            (case is_running lp of
               Inl e \<Rightarrow> (Raised e, [])
             | Inr running \<Rightarrow>
                 (if running then schedule_cleanup self env lp
                  else sync_cleanup self env lp)))"

text \<open>
  \<^verbatim>\<open>AbstractDeployment.__del__\<close>: \<^verbatim>\<open>import sys\<close> outside any \<^verbatim>\<open>try\<close>, the shutdown
  check, the notice, the probe.
\<close>

definition AbstractDeployment_del :: "deployment \<Rightarrow> env \<Rightarrow> result" where
  "AbstractDeployment_del self env =
     (case import_sys_entry env of
        Some e \<Rightarrow> (Raised e, [])
      | None \<Rightarrow>
          (if meta_path_none_entry env then (Returned, [])
           else and_then (log_or_print self env DEBUG (Inr msg)) (probe_and_cleanup self env)))"

subsection \<open>The done-callback of the detached task\<close>

text \<open>
  How the task wrapping \<^verbatim>\<open>self.stop()\<close> ended, and \<^verbatim>\<open>Task.exception()\<close> as asyncio
  documents it: the exception of a failed task, \<^verbatim>\<open>None\<close> for a task that returned, and
  for a cancelled task the call itself raises \<^verbatim>\<open>CancelledError\<close>.
\<close>

datatype task = TaskReturned | TaskFailed exn | TaskCancelled

fun task_exception :: "task \<Rightarrow> exn + exn option" where
  "task_exception TaskReturned = Inr None"
| "task_exception (TaskFailed e) = Inr (Some e)"
| "task_exception TaskCancelled = Inl (plain CancelledError)"

text \<open>
  \<^verbatim>\<open>except Exception: pass\<close> around a run: an instance of \<^verbatim>\<open>Exception\<close> raised in
  it is dropped.
\<close>

definition swallow :: "result \<Rightarrow> result" where
  "swallow r =
     (case fst r of
        Raised e \<Rightarrow> (if isinstance_Exception e then (Returned, snd r) else r)
      | _ \<Rightarrow> r)"

text \<open>
  \<^verbatim>\<open>_log_task_done(t)\<close>: \<^verbatim>\<open>import sys\<close> and the shutdown check stand before the
  \<^verbatim>\<open>try\<close>; the outer \<^verbatim>\<open>except Exception: pass\<close> encloses the call
  \<^verbatim>\<open>t.exception()\<close>, the test of its truth value, and the logging with its fallback.
\<close>

definition log_task_done :: "deployment \<Rightarrow> env \<Rightarrow> task \<Rightarrow> result" where
  "log_task_done self env t =
     (case import_sys_callback env of
        Some e \<Rightarrow> (Raised e, [])
      | None \<Rightarrow>
          (if meta_path_none_callback env then (Returned, [])
           else
             swallow
               (case task_exception t of
                  Inl e \<Rightarrow> (Raised e, [])
                | Inr None \<Rightarrow> (Returned, [])
                | Inr (Some x) \<Rightarrow>
                    (case exn_bool x of
                       Inl c \<Rightarrow> (Raised (plain c), [])
                     | Inr truth \<Rightarrow>
                         (if truth then log_or_print self env ERROR (fstring task_error_prefix x)
                          else (Returned, []))))))"

subsection \<open>Reading a trace\<close>

fun is_scheduler_call :: "event \<Rightarrow> bool" where
  "is_scheduler_call CreateTask = True"
| "is_scheduler_call (RunUntilComplete t) = True"
| "is_scheduler_call e = False"

definition scheduler_calls :: "event list \<Rightarrow> event list" where
  "scheduler_calls evs = filter is_scheduler_call evs"

definition stop_calls :: "event list \<Rightarrow> nat" where
  "stop_calls evs = length (filter (\<lambda>e. e = StopCalled) evs)"

text \<open>A message at warning or error level, through the logger or through \<^verbatim>\<open>print\<close>.\<close>

fun is_alarm :: "event \<Rightarrow> bool" where
  "is_alarm (Log WARNING m) = True"
| "is_alarm (Log ERROR m) = True"
| "is_alarm (Print m) = (m \<noteq> msg)"
| "is_alarm e = False"


subsection \<open>The lifecycle contract\<close>

text \<open>
  \<^verbatim>\<open>runtime\<close>, \<^verbatim>\<open>is_alive\<close>, \<^verbatim>\<open>start\<close> and \<^verbatim>\<open>stop\<close> are abstract in the
  source: only their signatures and docstrings are there. The definitions below follow
  sections 4.1, 6 and 7 of the specification.
\<close>

datatype deployment_error = DeploymentNotStartedError | StartError | StateConflictError

record IsAliveResponse =
  is_alive_value :: bool
  message :: string

text \<open>
  Modelled from the spec: the accessor \<^verbatim>\<open>runtime\<close>, abstract in the source. It returns
  the owned runtime if the state is \<open>Running\<close> and fails with the not-started error
  otherwise.
\<close>

definition runtime :: "deployment \<Rightarrow> deployment_error + AbstractRuntime" where
  "runtime d =
     (if state d = Running then
        (case runtime_handle d of
           Some r \<Rightarrow> Inr r
         | None \<Rightarrow> Inl DeploymentNotStartedError)
      else Inl DeploymentNotStartedError)"

text \<open>
  Modelled from the spec: \<^verbatim>\<open>is_alive(timeout)\<close>, abstract in the source. It fails with
  the not-started error unless the state is \<open>Running\<close>, and otherwise queries the
  runtime; an answer that takes longer than the timeout is reported as not alive with a
  timeout detail.
\<close>

definition is_alive :: "deployment \<Rightarrow> real option \<Rightarrow> deployment_error + IsAliveResponse" where
  "is_alive d timeout =
     (case runtime d of
        Inl err \<Rightarrow> Inl err
      | Inr r \<Rightarrow>
          (case timeout of
             None \<Rightarrow> Inr \<lparr>is_alive_value = alive r, message = []\<rparr>
           | Some t \<Rightarrow>
               (if t < response_time r
                then Inr \<lparr>is_alive_value = False, message = ''timeout''\<rparr>
                else Inr \<lparr>is_alive_value = alive r, message = []\<rparr>)))"

text \<open>
  Modelled from the spec: the constructor of a concrete deployment, which creates the
  object in state \<open>NotStarted\<close> without a runtime.
\<close>

definition new_deployment :: "(level \<Rightarrow> outcome) \<Rightarrow> coroutine \<Rightarrow> deployment" where
  "new_deployment lg c =
     \<lparr>state = NotStarted, runtime_handle = None, logger = lg, stop_run = c\<rparr>"

text \<open>
  Modelled from the spec: the state transition of \<^verbatim>\<open>start\<close>, abstract in the source.
  It is valid from \<open>NotStarted\<close>, \<open>Stopped\<close> and \<open>Failed\<close>; it ends in \<open>Running\<close> with
  a new runtime when provisioning succeeds and in \<open>Failed\<close> when it does not; elsewhere it
  fails with the recommended state-conflict error and leaves the object alone.
\<close>

definition start :: "deployment \<Rightarrow> AbstractRuntime option \<Rightarrow> deployment_error option \<times> deployment" where
  "start d provisioned =
     (if state d = NotStarted \<or> state d = Stopped \<or> state d = Failed then
        (case provisioned of
           Some r \<Rightarrow> (None, d\<lparr>state := Running, runtime_handle := Some r\<rparr>)
         | None \<Rightarrow> (Some StartError, d\<lparr>state := Failed, runtime_handle := None\<rparr>))
      else (Some StateConflictError, d))"

text \<open>
  Modelled from the spec: the state transition of \<^verbatim>\<open>stop\<close>, abstract in the source: a
  no-op on a deployment that is \<open>Stopped\<close> or \<open>NotStarted\<close>, and otherwise the move to
  \<open>Stopped\<close> that releases the runtime.
\<close>

definition stop :: "deployment \<Rightarrow> deployment" where
  "stop d =
     (if state d = Stopped \<or> state d = NotStarted then d
      else d\<lparr>state := Stopped, runtime_handle := None\<rparr>)"

subsection \<open>Conditions on a run\<close>

text \<open>
  The message gets out: the logger returns, or it raises an instance of \<^verbatim>\<open>Exception\<close>
  and the \<^verbatim>\<open>print\<close> of the message returns. \<open>written\<close> is the event it leaves.
\<close>

definition writes :: "deployment \<Rightarrow> env \<Rightarrow> level \<Rightarrow> string \<Rightarrow> bool" where
  "writes self env lvl m =
     (case logger self lvl of
        None \<Rightarrow> True
      | Some e \<Rightarrow> isinstance_Exception e \<and> print_out env m = None)"

definition written :: "deployment \<Rightarrow> level \<Rightarrow> string \<Rightarrow> event" where
  "written self lvl m = (if logger self lvl = None then Log lvl m else Print m)"

text \<open>The coroutine, left alone, has not finished before the timeout.\<close>

fun unfinished_at :: "coroutine \<Rightarrow> real \<Rightarrow> bool" where
  "unfinished_at (Finishes d r c) timeout = (timeout \<le> d)"
| "unfinished_at (Hangs c) timeout = True"

fun reaction :: "coroutine \<Rightarrow> on_cancel" where
  "reaction (Finishes d r c) = c"
| "reaction (Hangs c) = c"

text \<open>The warning of the branch without an event loop is in the trace.\<close>

definition no_loop_warned :: "event list \<Rightarrow> bool" where
  "no_loop_warned evs = (Log WARNING no_loop_msg \<in> set evs \<or> Print no_loop_msg \<in> set evs)"

text \<open>
  A handler \<^verbatim>\<open>except Exception as e\<close> catches \<open>e\<close> and runs to its end: \<open>e\<close> is an
  instance of \<^verbatim>\<open>Exception\<close>, the \<^verbatim>\<open>import sys\<close> of the handler returns, and unless
  the interpreter is shutting down \<open>e\<close> can be formatted and the message gets out.
  Likewise for the handler of the timeout, and for the two of the synchronous branch
  together.
\<close>

definition handled :: "deployment \<Rightarrow> env \<Rightarrow> string \<Rightarrow> exn \<Rightarrow> bool" where
  "handled self env prefix e =
     (isinstance_Exception e \<and> import_sys_handler env = None \<and>
      (\<not> meta_path_none_handler env \<longrightarrow>
         (case exn_str e of Inl c \<Rightarrow> False | Inr s \<Rightarrow> writes self env ERROR (prefix @ s))))"

definition timeout_handled :: "deployment \<Rightarrow> env \<Rightarrow> bool" where
  "timeout_handled self env =
     (import_sys_handler env = None \<and>
      (\<not> meta_path_none_handler env \<longrightarrow> writes self env WARNING timeout_msg))"

definition sync_handled :: "deployment \<Rightarrow> env \<Rightarrow> exn \<Rightarrow> bool" where
  "sync_handled self env e =
     (if isinstance_TimeoutError e then timeout_handled self env
      else handled self env cleanup_error_prefix e)"

text \<open>
  Every call on the path the run takes behaves as the finalizer provides for: each
  \<^verbatim>\<open>import sys\<close> returns, each message gets out, \<^verbatim>\<open>get_event_loop\<close> returns or
  raises \<^verbatim>\<open>RuntimeError\<close>, \<^verbatim>\<open>is_running\<close> returns, whatever is raised inside a
  \<^verbatim>\<open>try\<close> is handled, and the driven coroutine ends.
\<close>

definition well_behaved :: "deployment \<Rightarrow> env \<Rightarrow> bool" where
  "well_behaved self env =
     (import_sys_entry env = None \<and>
      (\<not> meta_path_none_entry env \<longrightarrow>
         writes self env DEBUG msg \<and>
         (case get_event_loop env of
            Inl e \<Rightarrow> isinstance_RuntimeError e \<and> writes self env WARNING no_loop_msg
          | Inr lp \<Rightarrow>
              (case is_running lp of
                 Inl e \<Rightarrow> False
               | Inr running \<Rightarrow>
                   (if running then
                      (case create_task lp of
                         Some e \<Rightarrow> handled self env create_task_error_prefix e
                       | None \<Rightarrow>
                           (case add_done_callback lp of
                              Some e \<Rightarrow> handled self env create_task_error_prefix e
                            | None \<Rightarrow> True))
                    else
                      (case check_closed lp of
                         Some e \<Rightarrow> sync_handled self env e
                       | None \<Rightarrow>
                           (case wait_for (stop_run self) 30 of
                              Returned \<Rightarrow> True
                            | Raised e \<Rightarrow> sync_handled self env e
                            | Blocked \<Rightarrow> False)))))))"

text \<open>
  The run gets as far as the scheduler: up to the probe nothing raises, a loop is
  obtained, and \<^verbatim>\<open>create_task\<close> returns on a running loop, or
  \<^verbatim>\<open>run_until_complete\<close> accepts a loop that is not running.
\<close>

definition reaches_scheduler :: "deployment \<Rightarrow> env \<Rightarrow> bool" where
  "reaches_scheduler self env =
     (import_sys_entry env = None \<and> \<not> meta_path_none_entry env \<and> writes self env DEBUG msg \<and>
      (case get_event_loop env of
         Inl e \<Rightarrow> False
       | Inr lp \<Rightarrow>
           (case is_running lp of
              Inl e \<Rightarrow> False
            | Inr running \<Rightarrow>
                (if running then create_task lp = None else check_closed lp = None))))"

subsection \<open>Concrete objects and environments\<close>

definition idle_loop :: loop where
  "idle_loop = \<lparr>is_running = Inr False, create_task = None, add_done_callback = None,
     check_closed = None\<rparr>"

definition closed_loop :: loop where
  "closed_loop = \<lparr>is_running = Inr False,
     create_task = Some (Exn RuntimeError (Inr ''Event loop is closed'') (Inr True)),
     add_done_callback = None,
     check_closed = Some (Exn RuntimeError (Inr ''Event loop is closed'') (Inr True))\<rparr>"

definition running_loop :: loop where
  "running_loop = \<lparr>is_running = Inr True, create_task = None, add_done_callback = None,
     check_closed = Some (Exn RuntimeError (Inr ''This event loop is already running'') (Inr True))\<rparr>"

definition failing_loop :: loop where
  "failing_loop = \<lparr>is_running = Inr True,
     create_task = Some (Exn RuntimeError (Inr ''task factory failed'') (Inr True)),
     add_done_callback = None,
     check_closed = Some (Exn RuntimeError (Inr ''This event loop is already running'') (Inr True))\<rparr>"

text \<open>An interpreter at work: imports return, \<^verbatim>\<open>sys.meta_path\<close> is there, \<^verbatim>\<open>print\<close>
  returns.\<close>

definition env_with :: "exn + loop \<Rightarrow> env" where
  "env_with l = \<lparr>import_sys_entry = None, meta_path_none_entry = False,
     import_sys_handler = None, meta_path_none_handler = False,
     import_sys_callback = None, meta_path_none_callback = False,
     print_out = (\<lambda>m. None), get_event_loop = l\<rparr>"

text \<open>The same with \<^verbatim>\<open>sys.stdout\<close> closed.\<close>

definition closed_stdout_env :: "exn + loop \<Rightarrow> env" where
  "closed_stdout_env l = (env_with l)
     \<lparr>print_out := (\<lambda>m. Some (Exn ValueError (Inr ''I/O operation on closed file.'') (Inr True)))\<rparr>"

text \<open>An interpreter that tears its modules down.\<close>

definition teardown_env :: env where
  "teardown_env = \<lparr>
     import_sys_entry = Some (Exn ImportError
       (Inr ''sys.meta_path is None, Python is likely shutting down'') (Inr True)),
     meta_path_none_entry = True,
     import_sys_handler = Some (Exn ImportError
       (Inr ''sys.meta_path is None, Python is likely shutting down'') (Inr True)),
     meta_path_none_handler = True,
     import_sys_callback = Some (Exn ImportError
       (Inr ''sys.meta_path is None, Python is likely shutting down'') (Inr True)),
     meta_path_none_callback = True,
     print_out = (\<lambda>m. None), get_event_loop = Inr running_loop\<rparr>"

definition deployment_with :: "dstate \<Rightarrow> coroutine \<Rightarrow> deployment" where
  "deployment_with s c =
     \<lparr>state = s, runtime_handle = None, logger = (\<lambda>lvl. None), stop_run = c\<rparr>"

text \<open>An object on which \<^verbatim>\<open>self.logger\<close> was never set.\<close>

definition no_logger_deployment :: deployment where
  "no_logger_deployment =
     \<lparr>state = Running, runtime_handle = None,
      logger = (\<lambda>lvl. Some (Exn AttributeError (Inr ''logger'') (Inr True))),
      stop_run = Finishes 1 None RaisesCancelled\<rparr>"

definition live_runtime :: AbstractRuntime where
  "live_runtime = \<lparr>alive = True, response_time = 1\<rparr>"

section \<open>Properties\<close>

subsection \<open>Sequencing\<close>

lemma after_simps [simp]:
  "fst (after evs r) = fst r"
  "snd (after evs r) = evs @ snd r"
  "after evs (c, evs') = (c, evs @ evs')"
  by (simp_all add: after_def)

lemma and_then_simps [simp]:
  "fst (and_then r k) = (if fst r = Returned then fst k else fst r)"
  "snd (and_then r k) = snd r @ (if fst r = Returned then snd k else [])"
  by (simp_all add: and_then_def)

lemma and_then_Returned [simp]:
  "and_then (Returned, evs) k = (fst k, evs @ snd k)"
  by (simp add: and_then_def after_def)

subsection \<open>Messages\<close>

lemma msgs_distinct [simp]:
  "no_loop_msg \<noteq> msg" "timeout_msg \<noteq> msg"
  "cleanup_error_prefix @ s \<noteq> msg" "create_task_error_prefix @ s \<noteq> msg"
  "task_error_prefix @ s \<noteq> msg"
  "timeout_msg \<noteq> no_loop_msg" "cleanup_error_prefix @ s \<noteq> no_loop_msg"
  "create_task_error_prefix @ s \<noteq> no_loop_msg"
  "msg \<noteq> no_loop_msg"
  by (simp_all add: msg_def no_loop_msg_def timeout_msg_def cleanup_error_prefix_def
      create_task_error_prefix_def task_error_prefix_def)

lemma log_or_print_writes:
  "writes self env lvl m \<Longrightarrow>
   log_or_print self env lvl (Inr m) = (Returned, [written self lvl m])"
  by (cases "logger self lvl") (simp_all add: writes_def written_def log_or_print_def)

lemma log_or_print_Returned [simp]:
  "(fst (log_or_print self env lvl (Inr m)) = Returned) = writes self env lvl m"
  by (simp add: writes_def log_or_print_def split: option.split)

lemma log_or_print_raises [simp]:
  "fst (log_or_print self env lvl (Inl x)) \<noteq> Returned"
  "log_or_print self env lvl (Inl x) = (Raised x, [])"
  by (simp_all add: log_or_print_def)

lemma log_or_print_not_written:
  "fst (log_or_print self env lvl fm) \<noteq> Returned \<Longrightarrow> snd (log_or_print self env lvl fm) = []"
  by (auto simp: log_or_print_def split: sum.splits option.splits if_splits)

lemma log_or_print_not_Blocked [simp]:
  "fst (log_or_print self env lvl fm) \<noteq> Blocked"
  by (simp add: log_or_print_def split: sum.split option.split)

lemma fstring_simps [simp]:
  "exn_str e = Inr s \<Longrightarrow> fstring prefix e = Inr (prefix @ s)"
  "exn_str e = Inl c \<Longrightarrow> fstring prefix e = Inl (plain c)"
  by (simp_all add: fstring_def)

subsection \<open>Traces of the parts\<close>

lemma stop_calls_simps [simp]:
  "stop_calls [] = 0"
  "stop_calls (e # evs) = (if e = StopCalled then 1 else 0) + stop_calls evs"
  "stop_calls (xs @ ys) = stop_calls xs + stop_calls ys"
  by (simp_all add: stop_calls_def)

lemma scheduler_calls_simps [simp]:
  "scheduler_calls [] = []"
  "scheduler_calls (e # evs) = (if is_scheduler_call e then [e] else []) @ scheduler_calls evs"
  "scheduler_calls (xs @ ys) = scheduler_calls xs @ scheduler_calls ys"
  by (simp_all add: scheduler_calls_def)

lemma no_loop_warned_simps [simp]:
  "no_loop_warned [] = False"
  "no_loop_warned (e # evs) =
     (e = Log WARNING no_loop_msg \<or> e = Print no_loop_msg \<or> no_loop_warned evs)"
  "no_loop_warned (xs @ ys) = (no_loop_warned xs \<or> no_loop_warned ys)"
  by (auto simp: no_loop_warned_def)

lemma log_or_print_trace [simp]:
  "stop_calls (snd (log_or_print self env lvl fm)) = 0"
  "scheduler_calls (snd (log_or_print self env lvl fm)) = []"
  "length (filter is_alarm (snd (log_or_print self env lvl fm))) \<le> Suc 0"
  "filter is_alarm (snd (log_or_print self env DEBUG (Inr msg))) = []"
  "GetEventLoop \<notin> set (snd (log_or_print self env lvl fm))"
  "RunUntilComplete t \<notin> set (snd (log_or_print self env lvl fm))"
  by (simp_all add: log_or_print_def split: sum.split option.split)

lemma log_or_print_no_loop_warned [simp]:
  "\<not> no_loop_warned (snd (log_or_print self env lvl (fstring cleanup_error_prefix e)))"
  "\<not> no_loop_warned (snd (log_or_print self env lvl (fstring create_task_error_prefix e)))"
  "\<not> no_loop_warned (snd (log_or_print self env lvl (Inr timeout_msg)))"
  "\<not> no_loop_warned (snd (log_or_print self env lvl (Inr msg)))"
  by (simp_all add: log_or_print_def fstring_def split: sum.split option.split)

lemma written_simps [simp]:
  "written self lvl m \<noteq> StopCalled"
  "\<not> is_scheduler_call (written self lvl m)"
  "written self lvl m \<noteq> GetEventLoop"
  "written self lvl m \<noteq> RunUntilComplete t"
  "is_alarm (written self DEBUG m) = (logger self DEBUG \<noteq> None \<and> m \<noteq> msg)"
  "is_alarm (written self WARNING m) = (logger self WARNING = None \<or> m \<noteq> msg)"
  "is_alarm (written self ERROR m) = (logger self ERROR = None \<or> m \<noteq> msg)"
  by (auto simp: written_def)

lemma handle_error_trace [simp]:
  "stop_calls (snd (handle_error self env prefix e)) = 0"
  "scheduler_calls (snd (handle_error self env prefix e)) = []"
  "length (filter is_alarm (snd (handle_error self env prefix e))) \<le> Suc 0"
  "RunUntilComplete t \<notin> set (snd (handle_error self env prefix e))"
  by (simp_all add: handle_error_def split: option.split)

lemma handle_error_no_loop_warned [simp]:
  "\<not> no_loop_warned (snd (handle_error self env cleanup_error_prefix e))"
  "\<not> no_loop_warned (snd (handle_error self env create_task_error_prefix e))"
  by (simp_all add: handle_error_def split: option.split)

lemma on_timeout_trace [simp]:
  "stop_calls (snd (on_timeout self env)) = 0"
  "scheduler_calls (snd (on_timeout self env)) = []"
  "length (filter is_alarm (snd (on_timeout self env))) \<le> Suc 0"
  "\<not> no_loop_warned (snd (on_timeout self env))"
  by (simp_all add: on_timeout_def split: option.split)

lemma on_sync_error_trace [simp]:
  "stop_calls (snd (on_sync_error self env e)) = 0"
  "scheduler_calls (snd (on_sync_error self env e)) = []"
  "length (filter is_alarm (snd (on_sync_error self env e))) \<le> Suc 0"
  "\<not> no_loop_warned (snd (on_sync_error self env e))"
  by (simp_all add: on_sync_error_def)

lemma sync_cleanup_trace [simp]:
  "stop_calls (snd (sync_cleanup self env lp)) = 1"
  "scheduler_calls (snd (sync_cleanup self env lp)) =
     (if check_closed lp = None then [RunUntilComplete 30] else [])"
  "\<not> no_loop_warned (snd (sync_cleanup self env lp))"
  "length (filter is_alarm (snd (sync_cleanup self env lp))) \<le> Suc 0"
  by (simp_all add: sync_cleanup_def split: option.split completion.split)

lemma schedule_cleanup_trace [simp]:
  "stop_calls (snd (schedule_cleanup self env lp)) = 1"
  "scheduler_calls (snd (schedule_cleanup self env lp)) =
     (if create_task lp = None then [CreateTask] else [])"
  "\<not> no_loop_warned (snd (schedule_cleanup self env lp))"
  "length (filter is_alarm (snd (schedule_cleanup self env lp))) \<le> Suc 0"
  "RunUntilComplete t \<notin> set (snd (schedule_cleanup self env lp))"
  by (simp_all add: schedule_cleanup_def split: option.split)

lemma probe_and_cleanup_trace:
  "stop_calls (snd (probe_and_cleanup self env)) \<le> 1"
  "length (scheduler_calls (snd (probe_and_cleanup self env))) \<le> 1"
  "no_loop_warned (snd (probe_and_cleanup self env)) \<Longrightarrow>
     stop_calls (snd (probe_and_cleanup self env)) = 0 \<and>
     scheduler_calls (snd (probe_and_cleanup self env)) = []"
  "length (filter is_alarm (snd (probe_and_cleanup self env))) \<le> Suc 0"
  by (auto simp: probe_and_cleanup_def split: sum.split_asm if_split_asm sum.split)

subsection \<open>The ways through the finalizer\<close>

lemma del_import_raises:
  "import_sys_entry env = Some e \<Longrightarrow> AbstractDeployment_del self env = (Raised e, [])"
  by (simp add: AbstractDeployment_del_def)

lemma del_shutdown:
  "import_sys_entry env = None \<Longrightarrow> meta_path_none_entry env \<Longrightarrow>
   AbstractDeployment_del self env = (Returned, [])"
  by (simp add: AbstractDeployment_del_def)

lemma del_notice_fails:
  "import_sys_entry env = None \<Longrightarrow> \<not> meta_path_none_entry env \<Longrightarrow>
   \<not> writes self env DEBUG msg \<Longrightarrow>
   AbstractDeployment_del self env = (fst (log_or_print self env DEBUG (Inr msg)), [])"
  by (simp add: AbstractDeployment_del_def and_then_def log_or_print_not_written prod_eq_iff)

lemma del_probe:
  "import_sys_entry env = None \<Longrightarrow> \<not> meta_path_none_entry env \<Longrightarrow>
   writes self env DEBUG msg \<Longrightarrow>
   AbstractDeployment_del self env =
     after [written self DEBUG msg] (probe_and_cleanup self env)"
  by (simp add: AbstractDeployment_del_def log_or_print_writes after_def)

lemma del_cases:
  obtains (import_raises) e where "import_sys_entry env = Some e"
  | (shutdown) "import_sys_entry env = None" "meta_path_none_entry env"
  | (notice_fails) "import_sys_entry env = None" "\<not> meta_path_none_entry env"
      "\<not> writes self env DEBUG msg"
  | (probe) "import_sys_entry env = None" "\<not> meta_path_none_entry env"
      "writes self env DEBUG msg"
  by (cases "import_sys_entry env") auto

subsection \<open>When the parts return\<close>

lemma handle_error_Returned [simp]:
  "(fst (handle_error self env prefix e) = Returned) = handled self env prefix e"
  by (cases "exn_str e")
     (auto simp: handle_error_def handled_def split: option.split)

lemma on_timeout_Returned [simp]:
  "(fst (on_timeout self env) = Returned) = timeout_handled self env"
  by (auto simp: on_timeout_def timeout_handled_def split: option.split)

lemma on_sync_error_Returned [simp]:
  "(fst (on_sync_error self env e) = Returned) = sync_handled self env e"
  by (simp add: on_sync_error_def sync_handled_def)

lemma del_Returned_iff:
  "(fst (AbstractDeployment_del self env) = Returned) = well_behaved self env"
  by (auto simp: AbstractDeployment_del_def well_behaved_def probe_and_cleanup_def
      schedule_cleanup_def sync_cleanup_def
      split: option.split sum.split completion.split)

lemma del_alarms:
  "length (filter is_alarm (snd (AbstractDeployment_del self env))) \<le> 1"
proof (cases rule: del_cases [where env = env and self = self])
  case (import_raises e)
  then show ?thesis by (simp add: del_import_raises)
next
  case shutdown
  then show ?thesis by (simp add: del_shutdown)
next
  case notice_fails
  then show ?thesis by (simp add: del_notice_fails)
next
  case probe
  then show ?thesis
    using probe_and_cleanup_trace(4) [of self env]
    by (simp add: del_probe written_def)
qed

subsection \<open>What the finalizer does not read\<close>

lemma state_irrelevant [simp]:
  "log_or_print (self\<lparr>state := s\<rparr>) env lvl fm = log_or_print self env lvl fm"
  "writes (self\<lparr>state := s\<rparr>) env lvl m = writes self env lvl m"
  by (simp_all add: log_or_print_def writes_def split: option.split sum.split completion.split)

lemma handlers_state [simp]:
  "handle_error (self\<lparr>state := s\<rparr>) env prefix e = handle_error self env prefix e"
  "on_timeout (self\<lparr>state := s\<rparr>) env = on_timeout self env"
  by (simp_all add: handle_error_def on_timeout_def split: option.split sum.split completion.split)

lemma on_sync_error_state [simp]:
  "on_sync_error (self\<lparr>state := s\<rparr>) env e = on_sync_error self env e"
  by (simp add: on_sync_error_def)

lemma cleanup_state [simp]:
  "sync_cleanup (self\<lparr>state := s\<rparr>) env lp = sync_cleanup self env lp"
  "schedule_cleanup (self\<lparr>state := s\<rparr>) env lp = schedule_cleanup self env lp"
  by (simp_all add: sync_cleanup_def schedule_cleanup_def split: option.split sum.split completion.split)

lemma probe_and_cleanup_state [simp]:
  "probe_and_cleanup (self\<lparr>state := s\<rparr>) env = probe_and_cleanup self env"
  by (simp add: probe_and_cleanup_def split: option.split sum.split completion.split)

lemma del_state:
  "AbstractDeployment_del (self\<lparr>state := s\<rparr>) env = AbstractDeployment_del self env"
  by (simp add: AbstractDeployment_del_def split: option.split sum.split completion.split)

lemma stop_run_irrelevant [simp]:
  "log_or_print (self\<lparr>stop_run := c\<rparr>) env lvl fm = log_or_print self env lvl fm"
  by (simp add: log_or_print_def split: option.split sum.split)

lemma handle_error_stop_run [simp]:
  "handle_error (self\<lparr>stop_run := c\<rparr>) env prefix e = handle_error self env prefix e"
  by (simp add: handle_error_def split: option.split)

lemma schedule_cleanup_stop_run [simp]:
  "schedule_cleanup (self\<lparr>stop_run := c\<rparr>) env lp = schedule_cleanup self env lp"
  by (simp add: schedule_cleanup_def split: option.split)

lemma written_stop_run [simp]:
  "written (self\<lparr>stop_run := c\<rparr>) lvl m = written self lvl m"
  "writes (self\<lparr>stop_run := c\<rparr>) env lvl m = writes self env lvl m"
  by (simp_all add: written_def writes_def)

lemma log_or_print_debug_logger [simp]:
  "lvl \<noteq> DEBUG \<Longrightarrow>
   log_or_print (self\<lparr>logger := (logger self)(DEBUG := r)\<rparr>) env lvl fm
     = log_or_print self env lvl fm"
  by (simp add: log_or_print_def split: option.split sum.split)

lemma handlers_debug_logger [simp]:
  "handle_error (self\<lparr>logger := (logger self)(DEBUG := r)\<rparr>) env prefix e
     = handle_error self env prefix e"
  "on_timeout (self\<lparr>logger := (logger self)(DEBUG := r)\<rparr>) env = on_timeout self env"
  by (simp_all add: handle_error_def on_timeout_def split: option.split)

lemma on_sync_error_debug_logger [simp]:
  "on_sync_error (self\<lparr>logger := (logger self)(DEBUG := r)\<rparr>) env e
     = on_sync_error self env e"
  by (simp add: on_sync_error_def)

lemma cleanup_debug_logger [simp]:
  "sync_cleanup (self\<lparr>logger := (logger self)(DEBUG := r)\<rparr>) env lp
     = sync_cleanup self env lp"
  "schedule_cleanup (self\<lparr>logger := (logger self)(DEBUG := r)\<rparr>) env lp
     = schedule_cleanup self env lp"
  by (simp_all add: sync_cleanup_def schedule_cleanup_def
      split: option.split completion.split)

lemma probe_and_cleanup_debug_logger [simp]:
  "probe_and_cleanup (self\<lparr>logger := (logger self)(DEBUG := r)\<rparr>) env
     = probe_and_cleanup self env"
  by (simp add: probe_and_cleanup_def split: sum.split)

subsection \<open>The scheduler branches and the callback\<close>

lemma probe_and_cleanup_scheduler_calls:
  "(scheduler_calls (snd (probe_and_cleanup self env)) = []) =
     (case get_event_loop env of
        Inl e \<Rightarrow> True
      | Inr lp \<Rightarrow>
          (case is_running lp of
             Inl e \<Rightarrow> True
           | Inr running \<Rightarrow>
               (if running then create_task lp \<noteq> None else check_closed lp \<noteq> None)))"
  by (simp add: probe_and_cleanup_def split: sum.split)

lemma wait_for_times_out:
  "unfinished_at c timeout \<Longrightarrow> reaction c = RaisesCancelled \<Longrightarrow>
   wait_for c timeout = Raised (plain TimeoutError)"
  by (cases c) simp_all

lemma on_sync_error_timeout [simp]:
  "on_sync_error self env (plain TimeoutError) = on_timeout self env"
  by (simp add: on_sync_error_def isinstance_TimeoutError_def plain_def)

lemma handle_error_writes:
  "isinstance_Exception e \<Longrightarrow> import_sys_handler env = None \<Longrightarrow>
   \<not> meta_path_none_handler env \<Longrightarrow> exn_str e = Inr s \<Longrightarrow>
   writes self env ERROR (prefix @ s) \<Longrightarrow>
   handle_error self env prefix e = (Returned, [written self ERROR (prefix @ s)])"
  by (simp add: handle_error_def log_or_print_writes)

lemma swallow_Returned [simp]:
  "swallow (Returned, evs) = (Returned, evs)"
  by (simp add: swallow_def)

lemma probe_and_cleanup_starts:
  "snd (probe_and_cleanup self env) = GetEventLoop # tl (snd (probe_and_cleanup self env))"
  by (simp add: probe_and_cleanup_def)

section \<open>The claims\<close>

text \<open>
  Claim C1. The finalizer lets no exception through to its caller: every branch returns
  normally, after at most one warning or error message. As the code has it, this holds
  for the runs in which every call on the path taken behaves as the finalizer provides
  for (\<open>well_behaved\<close>): each \<^verbatim>\<open>import sys\<close> returns; each message gets out, the
  logger returning, or raising an instance of \<^verbatim>\<open>Exception\<close> with the \<^verbatim>\<open>print\<close>
  returning; \<^verbatim>\<open>get_event_loop\<close> returns a loop or raises \<^verbatim>\<open>RuntimeError\<close>;
  \<^verbatim>\<open>is_running\<close> returns; whatever \<^verbatim>\<open>create_task\<close>, \<^verbatim>\<open>add_done_callback\<close>,
  \<^verbatim>\<open>run_until_complete\<close> or the awaited \<^verbatim>\<open>stop()\<close> raises is an instance of
  \<^verbatim>\<open>Exception\<close> that can be formatted; and the awaited \<^verbatim>\<open>stop()\<close> ends. Such a run
  returns normally, and its trace holds at most one message at warning or error level.
  (By \<open>del_Returned_iff\<close> no other run returns normally.)
\<close>

theorem del_returns_when_well_behaved:
  assumes "well_behaved self env"
  shows "fst (AbstractDeployment_del self env) = Returned
       \<and> length (filter is_alarm (snd (AbstractDeployment_del self env))) \<le> 1"
  using assms del_alarms [of self env] by (simp add: del_Returned_iff)

text \<open>
  A run of the theorem: the loop is idle, \<^verbatim>\<open>stop()\<close> needs 40 time units, the wait
  times out, one warning is logged and the finalizer returns.
\<close>

theorem del_returns_when_well_behaved_witness:
  "well_behaved (deployment_with Running (Finishes 40 None RaisesCancelled))
     (env_with (Inr idle_loop))
 \<and> AbstractDeployment_del (deployment_with Running (Finishes 40 None RaisesCancelled))
      (env_with (Inr idle_loop))
     = (Returned, [Log DEBUG msg, GetEventLoop, StopCalled, RunUntilComplete 30,
                   Log WARNING timeout_msg])"
  using del_returns_when_well_behaved [of "deployment_with Running (Finishes 40 None RaisesCancelled)"
      "env_with (Inr idle_loop)"]
  by (simp add: AbstractDeployment_del_def probe_and_cleanup_def sync_cleanup_def
      on_sync_error_def on_timeout_def log_or_print_def well_behaved_def writes_def
      sync_handled_def timeout_handled_def
      isinstance_TimeoutError_def plain_def
      deployment_with_def env_with_def idle_loop_def)

text \<open>
  The claim as stated fails: with an idle loop, a \<^verbatim>\<open>KeyboardInterrupt\<close> that comes out
  of \<^verbatim>\<open>run_until_complete\<close> matches neither \<^verbatim>\<open>except asyncio.TimeoutError\<close> nor
  \<^verbatim>\<open>except Exception\<close> and leaves the finalizer.
\<close>

theorem del_propagates_KeyboardInterrupt:
  "fst (AbstractDeployment_del
         (deployment_with Running (Finishes 5 (Some (plain KeyboardInterrupt)) RaisesCancelled))
         (env_with (Inr idle_loop)))
     = Raised (plain KeyboardInterrupt)"
  by (simp add: AbstractDeployment_del_def probe_and_cleanup_def sync_cleanup_def
      on_sync_error_def handle_error_def log_or_print_def of_outcome_def
      isinstance_TimeoutError_def isinstance_Exception_def plain_def
      deployment_with_def env_with_def idle_loop_def)

text \<open>
  Claim C2. Finalizing a deployment that is \<open>Stopped\<close> or \<open>NotStarted\<close> touches the
  scheduler not at all. The finalizer never reads the state: its run is the same for every
  state. No task is scheduled and no synchronous wait is run exactly in the runs that do
  not get as far as the scheduler (\<open>reaches_scheduler\<close>): when \<^verbatim>\<open>import sys\<close> raises,
  when the interpreter is shutting down at entry, when the notice does not get out, when
  \<^verbatim>\<open>get_event_loop\<close> or \<^verbatim>\<open>is_running\<close> raises, when \<^verbatim>\<open>create_task\<close> raises on
  a running loop, or when \<^verbatim>\<open>run_until_complete\<close> refuses a loop that is not running.
\<close>

theorem del_ignores_state:
  "AbstractDeployment_del (self\<lparr>state := s\<rparr>) env = AbstractDeployment_del self env
 \<and> (scheduler_calls (snd (AbstractDeployment_del self env)) = [])
     = (\<not> reaches_scheduler self env)"
proof -
  have "(scheduler_calls (snd (AbstractDeployment_del self env)) = [])
     = (\<not> reaches_scheduler self env)"
  proof (cases rule: del_cases [where env = env and self = self])
    case (import_raises e)
    then show ?thesis by (simp add: del_import_raises reaches_scheduler_def)
  next
    case shutdown
    then show ?thesis by (simp add: del_shutdown reaches_scheduler_def)
  next
    case notice_fails
    then show ?thesis by (simp add: del_notice_fails reaches_scheduler_def)
  next
    case probe
    then show ?thesis
      by (auto simp: del_probe probe_and_cleanup_scheduler_calls reaches_scheduler_def
          split: sum.split)
  qed
  then show ?thesis by (simp add: del_state)
qed

text \<open>
  A run of the theorem: a deployment that was never started, finalized with an idle loop,
  has \<^verbatim>\<open>stop()\<close> driven on the loop, and the same happens when its state is
  \<open>Running\<close>.
\<close>

theorem del_ignores_state_witness:
  "reaches_scheduler (deployment_with NotStarted (Finishes 0 None RaisesCancelled))
     (env_with (Inr idle_loop))
 \<and> scheduler_calls (snd (AbstractDeployment_del
       (deployment_with NotStarted (Finishes 0 None RaisesCancelled))
       (env_with (Inr idle_loop)))) = [RunUntilComplete 30]
 \<and> AbstractDeployment_del
      ((deployment_with NotStarted (Finishes 0 None RaisesCancelled))\<lparr>state := Running\<rparr>)
      (env_with (Inr idle_loop))
   = AbstractDeployment_del (deployment_with NotStarted (Finishes 0 None RaisesCancelled))
       (env_with (Inr idle_loop))"
  using del_ignores_state [where self = "deployment_with NotStarted (Finishes 0 None RaisesCancelled)"
      and s = Running and env = "env_with (Inr idle_loop)"]
  by (simp add: AbstractDeployment_del_def probe_and_cleanup_def log_or_print_def
      reaches_scheduler_def writes_def deployment_with_def env_with_def idle_loop_def)

text \<open>
  The claim as stated fails: a deployment in state \<open>Stopped\<close>, finalized while the loop
  runs, has \<^verbatim>\<open>stop()\<close> called and scheduled as a task.
\<close>

theorem del_on_Stopped_schedules_task:
  "state (deployment_with Stopped (Finishes 0 None RaisesCancelled)) = Stopped
 \<and> AbstractDeployment_del (deployment_with Stopped (Finishes 0 None RaisesCancelled))
      (env_with (Inr running_loop))
     = (Returned, [Log DEBUG msg, GetEventLoop, StopCalled, CreateTask, AddDoneCallback])
 \<and> scheduler_calls (snd (AbstractDeployment_del
       (deployment_with Stopped (Finishes 0 None RaisesCancelled))
       (env_with (Inr running_loop)))) = [CreateTask]"
  by (simp add: AbstractDeployment_del_def probe_and_cleanup_def schedule_cleanup_def
      log_or_print_def deployment_with_def env_with_def running_loop_def)

text \<open>
  Claim C3. When the interpreter is in the middle of its teardown the finalizer returns at
  once and silently, the shutdown check being the first thing it does. In the code the
  first thing is \<^verbatim>\<open>import sys\<close>, outside every \<^verbatim>\<open>try\<close>: while the interpreter
  tears its modules down that statement raises \<^verbatim>\<open>ImportError\<close>, the check of
  \<^verbatim>\<open>sys.meta_path\<close> on the next line is never reached, and the exception leaves the
  finalizer.
\<close>

theorem del_raises_in_teardown:
  "AbstractDeployment_del (deployment_with Running (Finishes 1 None RaisesCancelled)) teardown_env
     = (Raised (Exn ImportError
          (Inr ''sys.meta_path is None, Python is likely shutting down'') (Inr True)), [])"
  by (simp add: AbstractDeployment_del_def teardown_env_def)

text \<open>
  Claim C4. With an obtainable loop that is not running, \<^verbatim>\<open>stop()\<close> is driven
  synchronously under a timeout of 30; when \<^verbatim>\<open>stop()\<close> exceeds it, exactly a warning is
  logged and the finalizer returns, with no retry and no exception. As the code has it, in
  a run that gets to such a loop (\<^verbatim>\<open>import sys\<close> returned, no shutdown at entry, the
  notice got out) and in which \<^verbatim>\<open>run_until_complete\<close> accepts the loop:
  \<^verbatim>\<open>stop()\<close> is called once and the one scheduler call is a \<^verbatim>\<open>run_until_complete\<close>
  on \<^verbatim>\<open>wait_for\<close> with timeout 30. A \<^verbatim>\<open>stop()\<close> that returns before 30 time units
  ends the run with nothing more. A \<^verbatim>\<open>stop()\<close> that is unfinished at 30 and ends in
  \<^verbatim>\<open>CancelledError\<close> when cancelled leads, when the \<^verbatim>\<open>import sys\<close> of the handler
  returns, to exactly one warning and a normal return if the interpreter is not shutting
  down and the warning gets out, and to a silent normal return if
  \<^verbatim>\<open>sys.meta_path\<close> is \<^verbatim>\<open>None\<close> by then.
\<close>

theorem del_sync_timeout:
  assumes "import_sys_entry env = None" and "\<not> meta_path_none_entry env"
    and "writes self env DEBUG msg"
    and "get_event_loop env = Inr lp" and "is_running lp = Inr False"
    and "check_closed lp = None"
  shows "scheduler_calls (snd (AbstractDeployment_del self env)) = [RunUntilComplete 30]
       \<and> stop_calls (snd (AbstractDeployment_del self env)) = 1
       \<and> (stop_run self = Finishes d None c \<and> d < 30 \<longrightarrow>
            AbstractDeployment_del self env =
              (Returned, [written self DEBUG msg, GetEventLoop, StopCalled,
                          RunUntilComplete 30]))
       \<and> (unfinished_at (stop_run self) 30 \<and> reaction (stop_run self) = RaisesCancelled
            \<and> import_sys_handler env = None \<and> \<not> meta_path_none_handler env
            \<and> writes self env WARNING timeout_msg \<longrightarrow>
            AbstractDeployment_del self env =
              (Returned, [written self DEBUG msg, GetEventLoop, StopCalled,
                          RunUntilComplete 30, written self WARNING timeout_msg]))
       \<and> (unfinished_at (stop_run self) 30 \<and> reaction (stop_run self) = RaisesCancelled
            \<and> import_sys_handler env = None \<and> meta_path_none_handler env \<longrightarrow>
            AbstractDeployment_del self env =
              (Returned, [written self DEBUG msg, GetEventLoop, StopCalled,
                          RunUntilComplete 30]))"
  using assms
  by (simp add: del_probe probe_and_cleanup_def)
     (simp add: sync_cleanup_def wait_for_times_out on_timeout_def log_or_print_writes
        of_outcome_def)

text \<open>
  Two runs of the theorem on an idle loop: \<^verbatim>\<open>stop()\<close> takes 40 time units and the
  warning is logged; \<^verbatim>\<open>stop()\<close> takes 10 and nothing is.
\<close>

theorem del_sync_timeout_witness:
  "import_sys_entry (env_with (Inr idle_loop)) = None
 \<and> \<not> meta_path_none_entry (env_with (Inr idle_loop))
 \<and> writes (deployment_with Running (Finishes 40 None RaisesCancelled))
     (env_with (Inr idle_loop)) DEBUG msg
 \<and> get_event_loop (env_with (Inr idle_loop)) = Inr idle_loop
 \<and> is_running idle_loop = Inr False \<and> check_closed idle_loop = None
 \<and> unfinished_at (stop_run (deployment_with Running (Finishes 40 None RaisesCancelled))) 30
 \<and> AbstractDeployment_del (deployment_with Running (Finishes 40 None RaisesCancelled))
      (env_with (Inr idle_loop))
     = (Returned, [Log DEBUG msg, GetEventLoop, StopCalled, RunUntilComplete 30,
                   Log WARNING timeout_msg])
 \<and> AbstractDeployment_del (deployment_with Running (Finishes 10 None RaisesCancelled))
      (env_with (Inr idle_loop))
     = (Returned, [Log DEBUG msg, GetEventLoop, StopCalled, RunUntilComplete 30])"
  using del_sync_timeout [where env = "env_with (Inr idle_loop)" and lp = idle_loop
      and self = "deployment_with Running (Finishes 40 None RaisesCancelled)"]
    del_sync_timeout [where env = "env_with (Inr idle_loop)" and lp = idle_loop
      and self = "deployment_with Running (Finishes 10 None RaisesCancelled)"
      and d = 10 and c = RaisesCancelled]
  by (simp add: writes_def written_def deployment_with_def env_with_def idle_loop_def)

text \<open>
  The claim as stated fails: the current loop is closed, so it is obtainable and not
  running; \<^verbatim>\<open>run_until_complete\<close> raises \<^verbatim>\<open>RuntimeError\<close> at once, \<^verbatim>\<open>stop()\<close>
  is never driven, no wait is run, and an error is logged, not a warning.
\<close>

theorem del_closed_loop_never_drives_stop:
  "get_event_loop (env_with (Inr closed_loop)) = Inr closed_loop
 \<and> is_running closed_loop = Inr False
 \<and> unfinished_at (stop_run (deployment_with Running (Finishes 40 None RaisesCancelled))) 30
 \<and> AbstractDeployment_del (deployment_with Running (Finishes 40 None RaisesCancelled))
      (env_with (Inr closed_loop))
     = (Returned, [Log DEBUG msg, GetEventLoop, StopCalled,
                   Log ERROR (cleanup_error_prefix @ ''Event loop is closed'')])
 \<and> scheduler_calls (snd (AbstractDeployment_del
       (deployment_with Running (Finishes 40 None RaisesCancelled))
       (env_with (Inr closed_loop)))) = []"
  by (simp add: AbstractDeployment_del_def probe_and_cleanup_def sync_cleanup_def
      on_sync_error_def handle_error_def log_or_print_def fstring_def
      isinstance_TimeoutError_def isinstance_Exception_def
      deployment_with_def env_with_def closed_loop_def)

text \<open>
  Claim C5. With an obtainable loop that is running, \<^verbatim>\<open>stop()\<close> is scheduled as a
  detached task, a callback is attached that logs the outcome and never raises, and no
  timeout applies. As the code has it, in a run that gets to such a loop
  (\<^verbatim>\<open>import sys\<close> returned, no shutdown at entry, the notice got out): \<^verbatim>\<open>stop()\<close>
  is called once, the loop is never driven, and the run does not depend on how
  \<^verbatim>\<open>stop()\<close> behaves. When \<^verbatim>\<open>create_task\<close> and \<^verbatim>\<open>add_done_callback\<close> return, the
  task is scheduled, the callback attached, and the finalizer returns. When
  \<^verbatim>\<open>create_task\<close> raises an instance of \<^verbatim>\<open>Exception\<close> that can be formatted, the
  \<^verbatim>\<open>import sys\<close> of the handler returns, the interpreter is not shutting down and the
  message gets out, one error is written, nothing is scheduled and the finalizer returns.
  The callback, when its \<^verbatim>\<open>import sys\<close> returns: does nothing if
  \<^verbatim>\<open>sys.meta_path\<close> is \<^verbatim>\<open>None\<close>; does nothing for a task that returned; and for a
  failed task, if the interpreter is not shutting down, the exception is true, can be
  formatted and the message gets out, writes one error and returns.
\<close>

theorem del_detached_task:
  assumes "import_sys_entry env = None" and "\<not> meta_path_none_entry env"
    and "writes self env DEBUG msg"
    and "get_event_loop env = Inr lp" and "is_running lp = Inr True"
  shows "stop_calls (snd (AbstractDeployment_del self env)) = 1
       \<and> (\<forall>timeout. RunUntilComplete timeout \<notin> set (snd (AbstractDeployment_del self env)))
       \<and> AbstractDeployment_del (self\<lparr>stop_run := c\<rparr>) env = AbstractDeployment_del self env
       \<and> (create_task lp = None \<and> add_done_callback lp = None \<longrightarrow>
            AbstractDeployment_del self env =
              (Returned, [written self DEBUG msg, GetEventLoop, StopCalled, CreateTask,
                          AddDoneCallback]))
       \<and> (create_task lp = Some e \<and> isinstance_Exception e \<and> import_sys_handler env = None
            \<and> \<not> meta_path_none_handler env \<and> exn_str e = Inr s
            \<and> writes self env ERROR (create_task_error_prefix @ s) \<longrightarrow>
            AbstractDeployment_del self env =
              (Returned, [written self DEBUG msg, GetEventLoop, StopCalled,
                          written self ERROR (create_task_error_prefix @ s)]))
       \<and> (import_sys_callback env = None \<and> meta_path_none_callback env \<longrightarrow>
            log_task_done self env t = (Returned, []))
       \<and> (import_sys_callback env = None \<longrightarrow>
            log_task_done self env TaskReturned = (Returned, []))
       \<and> (import_sys_callback env = None \<and> \<not> meta_path_none_callback env
            \<and> exn_bool x = Inr True \<and> exn_str x = Inr s'
            \<and> writes self env ERROR (task_error_prefix @ s') \<longrightarrow>
            log_task_done self env (TaskFailed x) =
              (Returned, [written self ERROR (task_error_prefix @ s')]))"
  using assms
  by (simp add: del_probe probe_and_cleanup_def AbstractDeployment_del_def)
     (simp add: schedule_cleanup_def handle_error_writes log_task_done_def
        log_or_print_writes written_def)

text \<open>
  A run of the theorem: a \<^verbatim>\<open>stop()\<close> that never finishes is scheduled on the running
  loop and the finalizer returns; the callback logs the failure of a failed task.
\<close>

theorem del_detached_task_witness:
  "import_sys_entry (env_with (Inr running_loop)) = None
 \<and> \<not> meta_path_none_entry (env_with (Inr running_loop))
 \<and> writes (deployment_with Running (Hangs NeverFinishes)) (env_with (Inr running_loop))
     DEBUG msg
 \<and> get_event_loop (env_with (Inr running_loop)) = Inr running_loop
 \<and> is_running running_loop = Inr True
 \<and> AbstractDeployment_del (deployment_with Running (Hangs NeverFinishes))
      (env_with (Inr running_loop))
     = (Returned, [Log DEBUG msg, GetEventLoop, StopCalled, CreateTask, AddDoneCallback])
 \<and> log_task_done (deployment_with Running (Hangs NeverFinishes))
      (env_with (Inr running_loop)) (TaskFailed (Exn OtherException (Inr ''boom'') (Inr True)))
     = (Returned, [Log ERROR (task_error_prefix @ ''boom'')])"
  using del_detached_task [where env = "env_with (Inr running_loop)" and lp = running_loop
      and self = "deployment_with Running (Hangs NeverFinishes)"
      and x = "Exn OtherException (Inr ''boom'') (Inr True)" and s' = "''boom''"]
  by (simp add: writes_def written_def deployment_with_def env_with_def running_loop_def)

text \<open>
  The claim as stated fails: the loop runs, \<^verbatim>\<open>loop.create_task\<close> raises
  \<^verbatim>\<open>RuntimeError\<close>; the handler logs the error, no task is scheduled and no callback
  is attached.
\<close>

theorem del_create_task_failure:
  "get_event_loop (env_with (Inr failing_loop)) = Inr failing_loop
 \<and> is_running failing_loop = Inr True
 \<and> AbstractDeployment_del (deployment_with Running (Finishes 1 None RaisesCancelled))
      (env_with (Inr failing_loop))
     = (Returned, [Log DEBUG msg, GetEventLoop, StopCalled,
                   Log ERROR (create_task_error_prefix @ ''task factory failed'')])
 \<and> scheduler_calls (snd (AbstractDeployment_del
       (deployment_with Running (Finishes 1 None RaisesCancelled))
       (env_with (Inr failing_loop)))) = []"
  by (simp add: AbstractDeployment_del_def probe_and_cleanup_def schedule_cleanup_def
      handle_error_def log_or_print_def fstring_def isinstance_Exception_def
      deployment_with_def env_with_def failing_loop_def)

text \<open>
  Claim C6. When no event loop is obtainable, exactly one warning is logged and the
  finalizer returns, without calling \<^verbatim>\<open>stop()\<close> and without an error. As the code has
  it, in a run that gets to the probe (\<^verbatim>\<open>import sys\<close> returned, no shutdown at entry,
  the notice got out) and in which \<^verbatim>\<open>get_event_loop\<close> raises \<^verbatim>\<open>RuntimeError\<close>:
  \<^verbatim>\<open>stop()\<close> is never called and the scheduler is not touched; and if the warning gets
  out (the logger returns, or raises an instance of \<^verbatim>\<open>Exception\<close> and the \<^verbatim>\<open>print\<close>
  returns), it is the one message at warning or error level and the finalizer returns
  normally.
\<close>

theorem del_no_loop_warns_once:
  assumes "import_sys_entry env = None" and "\<not> meta_path_none_entry env"
    and "writes self env DEBUG msg"
    and "get_event_loop env = Inl e" and "isinstance_RuntimeError e"
  shows "stop_calls (snd (AbstractDeployment_del self env)) = 0
       \<and> scheduler_calls (snd (AbstractDeployment_del self env)) = []
       \<and> (writes self env WARNING no_loop_msg \<longrightarrow>
            AbstractDeployment_del self env =
              (Returned, [written self DEBUG msg, GetEventLoop,
                          written self WARNING no_loop_msg])
          \<and> filter is_alarm (snd (AbstractDeployment_del self env)) =
              [written self WARNING no_loop_msg])"
  using assms
  by (simp add: del_probe probe_and_cleanup_def)
     (simp add: log_or_print_writes written_def)

text \<open>
  A run of the theorem: the object has no logger, so the notice and the warning are
  printed.
\<close>

theorem del_no_loop_warns_once_witness:
  "import_sys_entry (env_with (Inl (plain RuntimeError))) = None
 \<and> \<not> meta_path_none_entry (env_with (Inl (plain RuntimeError)))
 \<and> writes no_logger_deployment (env_with (Inl (plain RuntimeError))) DEBUG msg
 \<and> get_event_loop (env_with (Inl (plain RuntimeError))) = Inl (plain RuntimeError)
 \<and> isinstance_RuntimeError (plain RuntimeError)
 \<and> writes no_logger_deployment (env_with (Inl (plain RuntimeError))) WARNING no_loop_msg
 \<and> AbstractDeployment_del no_logger_deployment (env_with (Inl (plain RuntimeError)))
     = (Returned, [Print msg, GetEventLoop, Print no_loop_msg])"
  using del_no_loop_warns_once [where env = "env_with (Inl (plain RuntimeError))" and e = "plain RuntimeError"
      and self = no_logger_deployment]
  by (simp add: writes_def written_def isinstance_RuntimeError_def isinstance_Exception_def
      plain_def no_logger_deployment_def env_with_def)

text \<open>
  The claim as stated fails: no loop is obtainable because \<^verbatim>\<open>get_event_loop\<close> raises
  \<^verbatim>\<open>OSError\<close> (no file descriptors left); \<^verbatim>\<open>except RuntimeError\<close> does not catch
  it, no warning is written and the exception leaves the finalizer.
\<close>

theorem del_get_event_loop_OSError:
  "AbstractDeployment_del (deployment_with Running (Finishes 1 None RaisesCancelled))
     (env_with (Inl (Exn OSError (Inr ''[Errno 24] Too many open files'') (Inr True))))
     = (Raised (Exn OSError (Inr ''[Errno 24] Too many open files'') (Inr True)),
        [Log DEBUG msg, GetEventLoop])"
  by (simp add: AbstractDeployment_del_def probe_and_cleanup_def log_or_print_def
      isinstance_RuntimeError_def deployment_with_def env_with_def)

text \<open>
  Claim C7. Past the shutdown check, a notice at debug level is emitted before the probe
  for the event loop; when the logger raises, the finalizer falls back to \<^verbatim>\<open>print\<close>
  and carries on. As the code has it, in a run past the shutdown check: when
  \<^verbatim>\<open>logger.debug\<close> returns, the notice is the first event and the probe the second;
  when it raises an instance of \<^verbatim>\<open>Exception\<close> and the \<^verbatim>\<open>print\<close> of the notice
  returns, the printed notice is the first event and the probe the second, and the ending
  of the run and everything after the notice are what they are with a logger whose
  \<^verbatim>\<open>debug\<close> returns.
\<close>

theorem del_debug_notice_first:
  assumes "import_sys_entry env = None" and "\<not> meta_path_none_entry env"
  shows "(logger self DEBUG = None \<longrightarrow>
            (\<exists>rest. snd (AbstractDeployment_del self env)
               = Log DEBUG msg # GetEventLoop # rest))
       \<and> (logger self DEBUG = Some e \<and> isinstance_Exception e \<and> print_out env msg = None \<longrightarrow>
            (\<exists>rest. snd (AbstractDeployment_del self env)
               = Print msg # GetEventLoop # rest)
          \<and> fst (AbstractDeployment_del self env)
              = fst (AbstractDeployment_del (self\<lparr>logger := (logger self)(DEBUG := None)\<rparr>) env)
          \<and> tl (snd (AbstractDeployment_del self env))
              = tl (snd (AbstractDeployment_del
                     (self\<lparr>logger := (logger self)(DEBUG := None)\<rparr>) env)))"
proof -
  have w: "writes (self\<lparr>logger := (logger self)(DEBUG := None)\<rparr>) env DEBUG msg"
    by (simp add: writes_def)
  show ?thesis
    using assms probe_and_cleanup_starts [of self env]
    by (auto simp: del_probe [OF _ _ w] del_probe writes_def written_def)
qed

text \<open>
  A run of the theorem: the object has no logger; the notice is printed and \<^verbatim>\<open>stop()\<close>
  is still driven on the idle loop.
\<close>

theorem del_debug_notice_first_witness:
  "import_sys_entry (env_with (Inr idle_loop)) = None
 \<and> \<not> meta_path_none_entry (env_with (Inr idle_loop))
 \<and> isinstance_Exception (Exn AttributeError (Inr ''logger'') (Inr True))
 \<and> AbstractDeployment_del no_logger_deployment (env_with (Inr idle_loop))
     = (Returned, [Print msg, GetEventLoop, StopCalled, RunUntilComplete 30])"
  using del_debug_notice_first [where env = "env_with (Inr idle_loop)" and self = no_logger_deployment
      and e = "Exn AttributeError (Inr ''logger'') (Inr True)"]
  by (simp add: AbstractDeployment_del_def probe_and_cleanup_def sync_cleanup_def
      log_or_print_def of_outcome_def isinstance_Exception_def
      no_logger_deployment_def env_with_def idle_loop_def)

text \<open>
  The claim as stated fails: the object has no logger and \<^verbatim>\<open>sys.stdout\<close> is closed;
  \<^verbatim>\<open>logger.debug\<close> raises \<^verbatim>\<open>AttributeError\<close>, the \<^verbatim>\<open>print\<close> in the handler
  raises \<^verbatim>\<open>ValueError\<close>, and the finalizer is left before the probe for the event
  loop.
\<close>

theorem del_fallback_print_raises:
  "logger no_logger_deployment DEBUG = Some (Exn AttributeError (Inr ''logger'') (Inr True))
 \<and> AbstractDeployment_del no_logger_deployment (closed_stdout_env (Inr idle_loop))
     = (Raised (Exn ValueError (Inr ''I/O operation on closed file.'') (Inr True)), [])"
  by (simp add: AbstractDeployment_del_def and_then_def log_or_print_def
      isinstance_Exception_def no_logger_deployment_def closed_stdout_env_def env_with_def)

text \<open>
  Claim C8. On a deployment whose state is not \<open>Running\<close>, the accessor
  \<^verbatim>\<open>runtime\<close> and \<^verbatim>\<open>is_alive\<close> both fail with \<^verbatim>\<open>DeploymentNotStartedError\<close>; in
  particular on a new deployment, before any \<^verbatim>\<open>start()\<close>, and after \<^verbatim>\<open>stop()\<close>.
\<close>

theorem not_running_is_not_started_error:
  "(state d \<noteq> Running \<longrightarrow>
      runtime d = Inl DeploymentNotStartedError
    \<and> is_alive d timeout = Inl DeploymentNotStartedError)
 \<and> runtime (new_deployment lg c) = Inl DeploymentNotStartedError
 \<and> is_alive (new_deployment lg c) timeout = Inl DeploymentNotStartedError
 \<and> runtime (stop d) = Inl DeploymentNotStartedError
 \<and> is_alive (stop d) timeout = Inl DeploymentNotStartedError"
  by (simp add: runtime_def is_alive_def new_deployment_def stop_def)

text \<open>
  A run of the theorem: a deployment is started, stopped, and started again with a
  provisioning that fails; it is \<open>Failed\<close>, and the accessor fails too. After the first
  \<^verbatim>\<open>start()\<close> the accessor had returned the runtime.
\<close>

theorem not_running_is_not_started_error_witness:
  "state (snd (start (stop (snd (start (new_deployment (\<lambda>lvl. None) (Hangs RaisesCancelled))
       (Some live_runtime)))) None)) \<noteq> Running
 \<and> runtime (snd (start (stop (snd (start (new_deployment (\<lambda>lvl. None) (Hangs RaisesCancelled))
       (Some live_runtime)))) None)) = Inl DeploymentNotStartedError
 \<and> runtime (snd (start (new_deployment (\<lambda>lvl. None) (Hangs RaisesCancelled))
       (Some live_runtime)))
     = Inr live_runtime"
  using not_running_is_not_started_error
    [of "snd (start (stop (snd (start (new_deployment (\<lambda>lvl. None) (Hangs RaisesCancelled))
           (Some live_runtime)))) None)"]
  by (simp add: runtime_def new_deployment_def start_def stop_def)

text \<open>
  Claim C9. The done-callback of the detached task never raises. On a cancelled task it
  does: \<^verbatim>\<open>t.exception()\<close> raises \<^verbatim>\<open>CancelledError\<close>, which is no instance of
  \<^verbatim>\<open>Exception\<close>, so the enclosing \<^verbatim>\<open>except Exception: pass\<close> does not catch it.
\<close>

theorem log_task_done_cancelled_raises:
  "log_task_done (deployment_with Running (Finishes 1 None RaisesCancelled))
     (env_with (Inr running_loop)) TaskCancelled
     = (Raised (plain CancelledError), [])"
  by (simp add: log_task_done_def swallow_def isinstance_Exception_def plain_def env_with_def)



end
